theory Spec2Isabelle
  imports Complex_Main
begin

section \<open>Python values\<close>

text \<open>
  The handlers of \<^verbatim>\<open>useapi.py\<close> and \<^verbatim>\<open>mock_api_server.py\<close> return
  \<^verbatim>\<open>Dict[str, Any]\<close>. The values that occur are those a JSON decoder produces, plus
  \<^verbatim>\<open>str\<close> for a raw text body. A decoded JSON string and a raw text body are both
  a Python \<^verbatim>\<open>str\<close>, hence both \<open>PStr\<close>. A dict is an association list in insertion order.
\<close>

datatype pyval =
    PNone
  | PBool bool
  | PInt int
  | PFloat real
  | PStr string
  | PList "pyval list"
  | PDict "(string \<times> pyval) list"

subsection \<open>\<^verbatim>\<open>str(int)\<close>, as used by the f-strings\<close>

definition digit_char :: "nat \<Rightarrow> char" where
  "digit_char d = ''0123456789'' ! d"

fun str_nat :: "nat \<Rightarrow> string" where
  "str_nat n = (if n < 10 then [digit_char n] else str_nat (n div 10) @ [digit_char (n mod 10)])"

declare str_nat.simps [simp del]

definition str_int :: "int \<Rightarrow> string" where
  "str_int i = (if i < 0 then CHR ''-'' # str_nat (nat (- i)) else str_nat (nat i))"

section \<open>Exceptions\<close>

text \<open>
  The \<^verbatim>\<open>except\<close> clauses of \<^verbatim>\<open>use_api\<close> and \<^verbatim>\<open>handle_response\<close> test an exception
  against five classes. Python classes overlap (an exception object is an instance of every
  class on its inheritance chain), so an exception carries the list of those of the five
  classes it is an instance of, and its \<^verbatim>\<open>str(exc)\<close>. An exception that is an instance of
  none of them has the empty list.
\<close>

datatype exc_class = TimeoutError | ClientConnectorError | ClientError | ValueError | IOError

datatype exn = Exn (exn_classes: "exc_class list") (exn_str: string)

definition isinstance :: "exn \<Rightarrow> exc_class \<Rightarrow> bool" where
  "isinstance exc c = (c \<in> set (exn_classes exc))"

section \<open>The HTTP client\<close>

text \<open>
  \<^verbatim>\<open>aiohttp\<close> is not part of the repository: what its calls answer is a parameter.
  A response carries its status and what \<^verbatim>\<open>await response.json()\<close> and
  \<^verbatim>\<open>await response.text()\<close> do on it: return a value, or raise.
\<close>

record ClientResponse =
  status :: int
  resp_json :: "exn + pyval"
  resp_text :: "exn + string"

text \<open>\<^verbatim>\<open>session.get(url)\<close> and \<^verbatim>\<open>session.post(url, json=payload)\<close>.\<close>

datatype request =
    HttpGet string
  | HttpPost string "(string \<times> pyval) list"

text \<open>
  The upstream is a state \<open>'w\<close> and a client function: a request in a state is answered by
  a response or fails with an exception, and leaves a new state. The network record also
  logs, in order, every request handed to the client (each call of \<^verbatim>\<open>session.get\<close> or
  \<^verbatim>\<open>session.post\<close>), whether the client then answers or raises.
\<close>

type_synonym 'w client = "request \<Rightarrow> 'w \<Rightarrow> (exn + ClientResponse) \<times> 'w"

record 'w network =
  sent :: "request list"
  upstream :: 'w

definition http_request ::
  "'w client \<Rightarrow> request \<Rightarrow> 'w network \<Rightarrow> (exn + ClientResponse) \<times> 'w network" where
  "http_request client rq n =
     (case client rq (upstream n) of
        (r, w') \<Rightarrow> (r, \<lparr>sent = sent n @ [rq], upstream = w'\<rparr>))"

section \<open>\<^verbatim>\<open>useapi.py\<close>\<close>

record APIRequest =
  host :: string  port :: int  route :: string  "method" :: string
  payload :: "(string \<times> pyval) list option"

subsection \<open>\<^verbatim>\<open>handle_response\<close>\<close>

definition handle_response :: "ClientResponse \<Rightarrow> exn + pyval" where
  "handle_response response =
     (case resp_json response of
        Inr content \<Rightarrow>
          Inr (PDict [(''status'', PInt (status response)), (''content'', content)])
      | Inl exc \<Rightarrow>
          if isinstance exc ValueError then
            (case resp_text response of
               Inr content \<Rightarrow>
                 Inr (PDict [(''status'', PInt (status response)), (''content'', PStr content)])
             | Inl exc' \<Rightarrow> Inl exc')
          else Inl exc)"

subsection \<open>\<^verbatim>\<open>use_api\<close>\<close>

definition url_of :: "APIRequest \<Rightarrow> string" where
  "url_of request = ''http://'' @ host request @ '':'' @ str_int (port request) @ route request"

text \<open>
  The body of the \<^verbatim>\<open>try\<close> block. Falling off the end of the \<^verbatim>\<open>if/elif\<close> returns
  \<^verbatim>\<open>None\<close>. Opening and closing the \<^verbatim>\<open>ClientSession\<close> sends nothing and is taken
  not to raise; the log records written by \<^verbatim>\<open>logger\<close> are not part of the result.
\<close>

definition use_api_try :: "'w client \<Rightarrow> APIRequest \<Rightarrow> 'w network \<Rightarrow> (exn + pyval) \<times> 'w network" where
  "use_api_try client request n =
     (if method request = ''GET'' then
        (case http_request client (HttpGet (url_of request)) n of
           (Inl exc, n') \<Rightarrow> (Inl exc, n')
         | (Inr response, n') \<Rightarrow> (handle_response response, n'))
      else if method request = ''POST'' then
        (case payload request of
           None \<Rightarrow>
             (Inr (PDict [(''status'', PInt 400),
                          (''content'', PStr ''Payload is required for POST requests'')]), n)
         | Some p \<Rightarrow>
             (case http_request client (HttpPost (url_of request) p) n of
                (Inl exc, n') \<Rightarrow> (Inl exc, n')
              | (Inr response, n') \<Rightarrow> (handle_response response, n')))
      else (Inr PNone, n))"

text \<open>The \<^verbatim>\<open>except\<close> clauses, first match in source order; no clause matching, the
  exception propagates.\<close>

definition use_api_except :: "exn \<Rightarrow> exn + pyval" where
  "use_api_except exc =
     (if isinstance exc TimeoutError then
        Inr (PDict [(''status'', PInt 504), (''content'', PStr ''Request timed out'')])
      else if isinstance exc ClientConnectorError then
        Inr (PDict [(''status'', PInt 503),
                    (''content'', PStr (''Service unavailable: '' @ exn_str exc))])
      else if isinstance exc ClientError then
        Inr (PDict [(''status'', PInt 500),
                    (''content'', PStr (''Client error: '' @ exn_str exc))])
      else if isinstance exc ValueError then
        Inr (PDict [(''status'', PInt 400),
                    (''content'', PStr (''Invalid input: '' @ exn_str exc))])
      else if isinstance exc IOError then
        Inr (PDict [(''status'', PInt 500),
                    (''content'', PStr (''I/O error: '' @ exn_str exc))])
      else Inl exc)"

definition use_api :: "'w client \<Rightarrow> APIRequest \<Rightarrow> 'w network \<Rightarrow> (exn + pyval) \<times> 'w network" where
  "use_api client request n =
     (case use_api_try client request n of
        (Inl exc, n') \<Rightarrow> (use_api_except exc, n')
      | (Inr v, n') \<Rightarrow> (Inr v, n'))"

subsection \<open>The \<^verbatim>\<open>APIRequest\<close> model and the endpoint\<close>

text \<open>
  The only constraint the model declares is \<^verbatim>\<open>pattern="^(GET|POST)$"\<close> on
  \<^verbatim>\<open>method\<close>: an alternation of two literals anchored at both ends. The field types are
  those of the record.
\<close>

datatype pattern = Literal string | Alternation pattern pattern

fun fullmatch :: "pattern \<Rightarrow> string \<Rightarrow> bool" where
  "fullmatch (Literal l) s = (s = l)"
| "fullmatch (Alternation p q) s = (fullmatch p s \<or> fullmatch q s)"

definition method_pattern :: pattern where
  "method_pattern = Alternation (Literal ''GET'') (Literal ''POST'')"

datatype validation_error = string_pattern_mismatch string

definition APIRequest_validate :: "APIRequest \<Rightarrow> validation_error + APIRequest" where
  "APIRequest_validate request =
     (if fullmatch method_pattern (method request) then Inr request
      else Inl (string_pattern_mismatch ''method''))"

text \<open>\<^verbatim>\<open>@app.post("/useapi")\<close>: the body is validated against the model, then the handler
  runs. A validation error is answered by the framework; the handler does not run.\<close>

definition post_useapi ::
  "'w client \<Rightarrow> APIRequest \<Rightarrow> 'w network \<Rightarrow> (validation_error + (exn + pyval)) \<times> 'w network" where
  "post_useapi client body n =
     (case APIRequest_validate body of
        Inl err \<Rightarrow> (Inl err, n)
      | Inr request \<Rightarrow> (case use_api client request n of (r, n') \<Rightarrow> (Inr r, n')))"

text \<open>
  What the endpoint answers over HTTP is decided by the framework, which is not part of the
  repository: how it answers a validation error, a value the handler returns and an
  exception the handler raises is a parameter.
\<close>

datatype reply = Reply (reply_status: int) (reply_body: pyval)

record framework =
  on_invalid :: "validation_error \<Rightarrow> reply"
  on_return :: "pyval \<Rightarrow> reply"
  on_raise :: "exn \<Rightarrow> reply"

definition endpoint_reply :: "framework \<Rightarrow> validation_error + (exn + pyval) \<Rightarrow> reply" where
  "endpoint_reply fw outcome =
     (case outcome of
        Inl err \<Rightarrow> on_invalid fw err
      | Inr (Inl exc) \<Rightarrow> on_raise fw exc
      | Inr (Inr v) \<Rightarrow> on_return fw v)"

section \<open>\<^verbatim>\<open>mock_api_server.py\<close>\<close>

datatype HTTPException = HTTPException (status_code: int) (detail: string)

text \<open>\<^verbatim>\<open>read_item\<close>; the second argument is the draw of \<^verbatim>\<open>random.uniform(1, 100)\<close>.\<close>

definition read_item :: "int \<Rightarrow> real \<Rightarrow> HTTPException + pyval" where
  "read_item item_id u =
     (if item_id < 0 \<or> item_id > 100 then Inl (HTTPException 404 ''Item not found'')
      else Inr (PDict [(''item_id'', PInt item_id),
                       (''name'', PStr (''Item '' @ str_int item_id)),
                       (''value'', PFloat u)]))"

section \<open>Reading an envelope\<close>

text \<open>The \<^verbatim>\<open>status\<close> entry of a returned value, when it is a dict that has one.\<close>

fun envelope_status :: "pyval \<Rightarrow> pyval option" where
  "envelope_status (PDict kvs) = map_of kvs ''status''"
| "envelope_status _ = None"

section \<open>Example upstreams\<close>

text \<open>
  Two upstreams for evaluating the relay on concrete inputs: one answers every request with
  a given response, one fails every request with a given exception. Their state counts the
  requests they have received.
\<close>

definition answering :: "ClientResponse \<Rightarrow> nat client" where
  "answering response rq w = (Inr response, Suc w)"

definition failing :: "exn \<Rightarrow> nat client" where
  "failing exc rq w = (Inl exc, Suc w)"

definition idle :: "nat network" where
  "idle = \<lparr>sent = [], upstream = 0\<rparr>"

text \<open>The answer of the mock server to \<^verbatim>\<open>GET /api/item/500\<close>: 404 with a JSON body.\<close>

definition item_not_found :: ClientResponse where
  "item_not_found =
     \<lparr>status = 404,
      resp_json = Inr (PDict [(''detail'', PStr ''Item not found'')]),
      resp_text = Inr ''{\"detail\":\"Item not found\"}''\<rparr>"

definition get_item_500 :: APIRequest where
  "get_item_500 =
     \<lparr>host = ''localhost'', port = 8001, route = ''/api/item/500'', method = ''GET'',
      payload = None\<rparr>"

definition post_item_no_payload :: APIRequest where
  "post_item_no_payload =
     \<lparr>host = ''localhost'', port = 8001, route = ''/api/item'', method = ''POST'',
      payload = None\<rparr>"

definition get_item_lowercase :: APIRequest where
  "get_item_lowercase =
     \<lparr>host = ''localhost'', port = 8001, route = ''/api/item/5'', method = ''get'',
      payload = None\<rparr>"

definition item_payload :: "(string \<times> pyval) list" where
  "item_payload = [(''name'', PStr ''pen''), (''value'', PInt 2)]"

definition post_item :: APIRequest where
  "post_item =
     \<lparr>host = ''localhost'', port = 8001, route = ''/api/item'', method = ''POST'',
      payload = Some item_payload\<rparr>"

text \<open>
  FastAPI with its default handlers: a validation error is answered 422 with a
  \<^verbatim>\<open>detail\<close> list naming the error type and the field (its \<^verbatim>\<open>msg\<close>, \<^verbatim>\<open>input\<close> and
  \<^verbatim>\<open>ctx\<close> entries are left out), a returned value 200 with the value as body, an
  exception 500.
\<close>

definition fastapi_default :: framework where
  "fastapi_default =
     \<lparr>on_invalid = (\<lambda>err. case err of
          string_pattern_mismatch field \<Rightarrow>
            Reply 422 (PDict [(''detail'',
              PList [PDict [(''type'', PStr ''string_pattern_mismatch''),
                            (''loc'', PList [PStr ''body'', PStr field])]])])),
      on_return = (\<lambda>v. Reply 200 v),
      on_raise = (\<lambda>exc. Reply 500 (PStr ''Internal Server Error''))\<rparr>"

text \<open>
  Exceptions the client can raise, with the handled classes each is an instance of:
  \<^verbatim>\<open>asyncio.TimeoutError\<close> (an \<^verbatim>\<open>OSError\<close> since Python 3.11); aiohttp's
  \<^verbatim>\<open>ClientConnectorError\<close> on a refused connection (a \<^verbatim>\<open>ClientError\<close> and an
  \<^verbatim>\<open>OSError\<close>); its \<^verbatim>\<open>ServerDisconnectedError\<close>; a \<^verbatim>\<open>ValueError\<close> that is no
  \<^verbatim>\<open>ClientError\<close>, as aiohttp before 3.10 raises on a redirect to a scheme other than
  http and https; an \<^verbatim>\<open>OSError\<close> the client has not wrapped; and aiohttp's
  \<^verbatim>\<open>InvalidURL\<close>, raised for the URL of a port above 65535, which is both a
  \<^verbatim>\<open>ClientError\<close> and a \<^verbatim>\<open>ValueError\<close>.
\<close>

definition timed_out :: exn where
  "timed_out = Exn [TimeoutError, IOError] ''''"

definition connection_refused :: exn where
  "connection_refused =
     Exn [ClientConnectorError, ClientError, IOError]
       ''Cannot connect to host localhost:8001 ssl:default [Connect call failed ('127.0.0.1', 8001)]''"

definition server_disconnected :: exn where
  "server_disconnected = Exn [ClientError] ''Server disconnected''"

definition non_http_redirect :: exn where
  "non_http_redirect = Exn [ValueError] ''Can redirect only to http or https''"

definition broken_pipe :: exn where
  "broken_pipe = Exn [IOError] ''[Errno 32] Broken pipe''"

definition invalid_url :: exn where
  "invalid_url = Exn [ClientError, ValueError] ''http://localhost:70000/''"

text \<open>A descriptor whose port is above 65535.\<close>

definition get_port_70000 :: APIRequest where
  "get_port_70000 =
     \<lparr>host = ''localhost'', port = 70000, route = ''/'', method = ''GET'', payload = None\<rparr>"

text \<open>
  A 200 response with \<^verbatim>\<open>Content-Type: text/plain\<close> and body \<^verbatim>\<open>hello\<close>:
  \<^verbatim>\<open>response.json()\<close> refuses any content type other than \<^verbatim>\<open>application/json\<close>
  with a \<^verbatim>\<open>ContentTypeError\<close>, which is a \<^verbatim>\<open>ClientError\<close> and not a
  \<^verbatim>\<open>ValueError\<close>.
\<close>

definition content_type_error :: exn where
  "content_type_error =
     Exn [ClientError] ''Attempt to decode JSON with unexpected mimetype: text/plain''"

definition plain_text_hello :: ClientResponse where
  "plain_text_hello =
     \<lparr>status = 200, resp_json = Inl content_type_error, resp_text = Inr ''hello''\<rparr>"

text \<open>
  A 200 response whose JSON body is 100000 opening brackets: the decoder raises
  \<^verbatim>\<open>RecursionError\<close>, an instance of none of the five handled classes.
\<close>

definition recursion_error :: exn where
  "recursion_error =
     Exn [] ''maximum recursion depth exceeded while decoding a JSON array from a unicode string''"

definition deep_body :: string where
  "deep_body = replicate 100000 (CHR ''['')"

definition deeply_nested :: ClientResponse where
  "deeply_nested =
     \<lparr>status = 200, resp_json = Inl recursion_error, resp_text = Inr deep_body\<rparr>"

section \<open>Properties\<close>

subsection \<open>The decimal form of an item id\<close>

lemma str_nat_upto_100:
  assumes "n \<le> 100"
  shows "str_nat n =
     (if n < 10 then [''0123456789'' ! n]
      else if n < 100 then [''0123456789'' ! (n div 10), ''0123456789'' ! (n mod 10)]
      else ''100'')"
proof -
  consider (one) "n < 10" | (two) "10 \<le> n" "n < 100" | (three) "n = 100"
    using assms by linarith
  then show ?thesis
  proof cases
    case one
    then show ?thesis
      by (simp add: str_nat.simps [of n] digit_char_def)
  next
    case two
    then have d: "n div 10 < 10"
      by simp
    have "str_nat n = str_nat (n div 10) @ [digit_char (n mod 10)]"
      using two by (simp add: str_nat.simps [of n])
    also have "str_nat (n div 10) = [digit_char (n div 10)]"
      using d by (simp add: str_nat.simps [of "n div 10"])
    finally show ?thesis
      using two by (simp add: digit_char_def)
  next
    case three
    have "str_nat 100 = ''100''"
      by (simp add: str_nat.simps [of 100] str_nat.simps [of 10] str_nat.simps [of 1]
            str_nat.simps [of "Suc 0"] digit_char_def)
    then show ?thesis
      using three by simp
  qed
qed

lemma str_int_upto_100:
  assumes "0 \<le> i" and "i \<le> 100"
  shows "str_int i =
     (if i < 10 then [''0123456789'' ! nat i]
      else if i < 100 then [''0123456789'' ! nat (i div 10), ''0123456789'' ! nat (i mod 10)]
      else ''100'')"
proof -
  have n: "nat i \<le> 100"
    using assms by simp
  have "nat i div 10 = nat (i div 10)" "nat i mod 10 = nat (i mod 10)"
    using assms(1) by (simp_all add: nat_div_distrib nat_mod_distrib)
  moreover have "(nat i < 10) = (i < 10)" "(nat i < 100) = (i < 100)"
    using assms(1) by linarith+
  moreover have "str_int i = str_nat (nat i)"
    using assms(1) by (simp add: str_int_def)
  ultimately show ?thesis
    using str_nat_upto_100 [OF n] by simp
qed

subsection \<open>The mock server's \<^verbatim>\<open>read_item\<close>\<close>

text \<open>
  C10. \<^verbatim>\<open>read_item\<close> raises the 404 "Item not found" error exactly when the item id is below
  0 or above 100. For every id from 0 to 100 it returns the record holding that id and the
  name "Item " followed by the id in decimal, the digits written out: one digit below 10,
  the tens digit then the units digit below 100, and "100" at 100 (so "Item 5" at 5).
\<close>

theorem read_item_404_iff:
  "(read_item item_id u = Inl (HTTPException 404 ''Item not found''))
      = (item_id < 0 \<or> item_id > 100)
   \<and> ((\<exists>e. read_item item_id u = Inl e) = (item_id < 0 \<or> item_id > 100))
   \<and> ((0 \<le> item_id \<and> item_id \<le> 100) =
        (read_item item_id u =
          Inr (PDict [(''item_id'', PInt item_id),
                      (''name'', PStr (''Item '' @ str_int item_id)),
                      (''value'', PFloat u)])))
   \<and> ((0 \<le> item_id \<and> item_id \<le> 100) =
        (read_item item_id u =
          Inr (PDict [(''item_id'', PInt item_id),
                      (''name'', PStr (''Item '' @
                         (if item_id < 10 then [''0123456789'' ! nat item_id]
                          else if item_id < 100 then
                            [''0123456789'' ! nat (item_id div 10),
                             ''0123456789'' ! nat (item_id mod 10)]
                          else ''100''))),
                      (''value'', PFloat u)])))
   \<and> read_item 5 u =
        Inr (PDict [(''item_id'', PInt 5), (''name'', PStr ''Item 5''), (''value'', PFloat u)])"
proof -
  have out: "(read_item item_id u = Inl (HTTPException 404 ''Item not found''))
      = (item_id < 0 \<or> item_id > 100)"
    by (simp add: read_item_def)
  have ex: "(\<exists>e. read_item item_id u = Inl e) = (item_id < 0 \<or> item_id > 100)"
    by (simp add: read_item_def)
  have rec: "(0 \<le> item_id \<and> item_id \<le> 100) =
        (read_item item_id u =
          Inr (PDict [(''item_id'', PInt item_id),
                      (''name'', PStr (''Item '' @ str_int item_id)),
                      (''value'', PFloat u)]))"
    by (auto simp: read_item_def)
  have digits: "(0 \<le> item_id \<and> item_id \<le> 100) =
        (read_item item_id u =
          Inr (PDict [(''item_id'', PInt item_id),
                      (''name'', PStr (''Item '' @
                         (if item_id < 10 then [''0123456789'' ! nat item_id]
                          else if item_id < 100 then
                            [''0123456789'' ! nat (item_id div 10),
                             ''0123456789'' ! nat (item_id mod 10)]
                          else ''100''))),
                      (''value'', PFloat u)]))"
  proof (cases "0 \<le> item_id \<and> item_id \<le> 100")
    case True
    then have "str_int item_id =
         (if item_id < 10 then [''0123456789'' ! nat item_id]
          else if item_id < 100 then
            [''0123456789'' ! nat (item_id div 10), ''0123456789'' ! nat (item_id mod 10)]
          else ''100'')"
      using str_int_upto_100 by blast
    then show ?thesis
      using rec True by simp
  next
    case False
    then have "\<exists>e. read_item item_id u = Inl e"
      using ex by auto
    then show ?thesis
      using False by auto
  qed
  have five: "read_item 5 u =
        Inr (PDict [(''item_id'', PInt 5), (''name'', PStr ''Item 5''), (''value'', PFloat u)])"
    using str_int_upto_100 [of 5] by (simp add: read_item_def)
  show ?thesis
    using out ex rec digits five by (intro conjI)
qed

theorem read_item_404_iff_witness:
  "read_item 0 1.5 =
     Inr (PDict [(''item_id'', PInt 0), (''name'', PStr ''Item 0''), (''value'', PFloat 1.5)])
   \<and> read_item 7 1.5 =
     Inr (PDict [(''item_id'', PInt 7), (''name'', PStr ''Item 7''), (''value'', PFloat 1.5)])
   \<and> read_item 12 1.5 =
     Inr (PDict [(''item_id'', PInt 12), (''name'', PStr ''Item 12''), (''value'', PFloat 1.5)])
   \<and> read_item 90 1.5 =
     Inr (PDict [(''item_id'', PInt 90), (''name'', PStr ''Item 90''), (''value'', PFloat 1.5)])
   \<and> read_item 100 1.5 =
     Inr (PDict [(''item_id'', PInt 100), (''name'', PStr ''Item 100''), (''value'', PFloat 1.5)])
   \<and> read_item (- 1) 1.5 = Inl (HTTPException 404 ''Item not found'')
   \<and> read_item 101 1.5 = Inl (HTTPException 404 ''Item not found'')"
proof -
  have "read_item 0 1.5 =
     Inr (PDict [(''item_id'', PInt 0), (''name'', PStr ''Item 0''), (''value'', PFloat 1.5)])"
    using read_item_404_iff [of 0 "1.5", THEN conjunct2, THEN conjunct2, THEN conjunct2,
        THEN conjunct1]
    by simp
  moreover have "read_item 7 1.5 =
     Inr (PDict [(''item_id'', PInt 7), (''name'', PStr ''Item 7''), (''value'', PFloat 1.5)])"
    using read_item_404_iff [of 7 "1.5", THEN conjunct2, THEN conjunct2, THEN conjunct2,
        THEN conjunct1]
    by simp
  moreover have "read_item 12 1.5 =
     Inr (PDict [(''item_id'', PInt 12), (''name'', PStr ''Item 12''), (''value'', PFloat 1.5)])"
    using read_item_404_iff [of 12 "1.5", THEN conjunct2, THEN conjunct2, THEN conjunct2,
        THEN conjunct1]
    by simp
  moreover have "read_item 90 1.5 =
     Inr (PDict [(''item_id'', PInt 90), (''name'', PStr ''Item 90''), (''value'', PFloat 1.5)])"
    using read_item_404_iff [of 90 "1.5", THEN conjunct2, THEN conjunct2, THEN conjunct2,
        THEN conjunct1]
    by simp
  moreover have "read_item 100 1.5 =
     Inr (PDict [(''item_id'', PInt 100), (''name'', PStr ''Item 100''), (''value'', PFloat 1.5)])"
    using read_item_404_iff [of 100 "1.5", THEN conjunct2, THEN conjunct2, THEN conjunct2,
        THEN conjunct1]
    by simp
  moreover have "read_item (- 1) 1.5 = Inl (HTTPException 404 ''Item not found'')"
    using read_item_404_iff [of "- 1" "1.5", THEN conjunct1] by simp
  moreover have "read_item 101 1.5 = Inl (HTTPException 404 ''Item not found'')"
    using read_item_404_iff [of 101 "1.5", THEN conjunct1] by simp
  ultimately show ?thesis
    by (intro conjI)
qed

subsection \<open>How \<^verbatim>\<open>use_api\<close> unfolds on each method\<close>

lemma use_api_GET:
  assumes "method request = ''GET''"
  shows "use_api client request n =
     (case client (HttpGet (url_of request)) (upstream n) of
        (r, w') \<Rightarrow>
          ((case r of
              Inl exc \<Rightarrow> use_api_except exc
            | Inr response \<Rightarrow>
                (case handle_response response of
                   Inl exc \<Rightarrow> use_api_except exc
                 | Inr v \<Rightarrow> Inr v)),
           \<lparr>sent = sent n @ [HttpGet (url_of request)], upstream = w'\<rparr>))"
  using assms
  by (simp add: use_api_def use_api_try_def http_request_def split: prod.splits sum.splits)

lemma use_api_POST:
  assumes "method request = ''POST''" and "payload request = Some p"
  shows "use_api client request n =
     (case client (HttpPost (url_of request) p) (upstream n) of
        (r, w') \<Rightarrow>
          ((case r of
              Inl exc \<Rightarrow> use_api_except exc
            | Inr response \<Rightarrow>
                (case handle_response response of
                   Inl exc \<Rightarrow> use_api_except exc
                 | Inr v \<Rightarrow> Inr v)),
           \<lparr>sent = sent n @ [HttpPost (url_of request) p], upstream = w'\<rparr>))"
  using assms
  by (simp add: use_api_def use_api_try_def http_request_def split: prod.splits sum.splits)

lemma url_of_payload [simp]: "url_of (request\<lparr>payload := p\<rparr>) = url_of request"
  by (simp add: url_of_def)

lemma str_int_70000: "str_int 70000 = ''70000''"
  by (simp add: str_int_def str_nat.simps [of 70000] str_nat.simps [of 7000] str_nat.simps [of 700]
        str_nat.simps [of 70] str_nat.simps [of 7] digit_char_def)

lemma url_of_get_port_70000: "url_of get_port_70000 = exn_str invalid_url"
  by (simp add: url_of_def get_port_70000_def str_int_70000 invalid_url_def)

lemma post_useapi_accepted:
  assumes "method request = ''GET'' \<or> method request = ''POST''"
  shows "post_useapi client request n =
     (Inr (fst (use_api client request n)), snd (use_api client request n))"
  using assms
  by (auto simp: post_useapi_def APIRequest_validate_def method_pattern_def split: prod.splits)

lemma handle_response_json:
  assumes "resp_json response = Inr c"
  shows "handle_response response =
     Inr (PDict [(''status'', PInt (status response)), (''content'', c)])"
  using assms by (simp add: handle_response_def)

lemma handle_response_text:
  assumes "resp_json response = Inl exc" and "isinstance exc ValueError"
    and "resp_text response = Inr t"
  shows "handle_response response =
     Inr (PDict [(''status'', PInt (status response)), (''content'', PStr t)])"
  using assms by (simp add: handle_response_def)

subsection \<open>POST without payload\<close>

text \<open>
  C2. For every descriptor with method POST and no payload, the relay returns the envelope
  with status 400 and content "Payload is required for POST requests", and issues no outbound
  request: the log of sent requests and the upstream state are the ones it started from.
\<close>

theorem post_without_payload:
  assumes "method request = ''POST''" and "payload request = None"
  shows "use_api client request n =
     (Inr (PDict [(''status'', PInt 400),
                  (''content'', PStr ''Payload is required for POST requests'')]), n)"
  using assms by (simp add: use_api_def use_api_try_def)

theorem post_without_payload_witness:
  "use_api (answering item_not_found) post_item_no_payload idle =
     (Inr (PDict [(''status'', PInt 400),
                  (''content'', PStr ''Payload is required for POST requests'')]), idle)"
proof -
  have m: "method post_item_no_payload = ''POST''"
    by (simp add: post_item_no_payload_def)
  have p: "payload post_item_no_payload = None"
    by (simp add: post_item_no_payload_def)
  show ?thesis
    by (rule post_without_payload [OF m p])
qed

subsection \<open>GET\<close>

text \<open>
  C6. For every descriptor with method GET the payload is ignored: replacing the payload by
  any other leaves the result of the relay (envelope, log and upstream state) unchanged, and
  the one outbound request is a GET of the descriptor's URL, which carries no body.
\<close>

theorem get_ignores_payload:
  assumes "method request = ''GET''"
  shows "use_api client (request\<lparr>payload := p\<rparr>) n = use_api client request n
       \<and> sent (snd (use_api client request n)) = sent n @ [HttpGet (url_of request)]"
proof -
  have "method (request\<lparr>payload := p\<rparr>) = ''GET''"
    using assms by simp
  then have "use_api client (request\<lparr>payload := p\<rparr>) n = use_api client request n"
    by (simp add: use_api_GET assms)
  moreover have "sent (snd (use_api client request n)) = sent n @ [HttpGet (url_of request)]"
    by (simp add: use_api_GET assms split: prod.splits)
  ultimately show ?thesis by simp
qed

theorem get_ignores_payload_witness:
  "use_api (answering item_not_found)
       (get_item_500\<lparr>payload := Some [(''name'', PStr ''x'')]\<rparr>) idle
     = use_api (answering item_not_found) get_item_500 idle
   \<and> sent (snd (use_api (answering item_not_found) get_item_500 idle))
     = [HttpGet (url_of get_item_500)]"
proof -
  have m: "method get_item_500 = ''GET''"
    by (simp add: get_item_500_def)
  show ?thesis
    using get_ignores_payload [OF m, of "answering item_not_found" "Some [(''name'', PStr ''x'')]" idle]
    by (simp add: idle_def)
qed

text \<open>
  C8. Two successive relay invocations with the same GET descriptor, against an upstream that
  answers the descriptor's request the same way in every state, return the same result
  (the same envelope, status and content).
\<close>

theorem repeated_get_same_envelope:
  assumes "method request = ''GET''"
    and "\<forall>w. fst (client (HttpGet (url_of request)) w) = answer"
  shows "fst (use_api client request (snd (use_api client request n)))
       = fst (use_api client request n)"
proof -
  let ?rq = "HttpGet (url_of request)"
  have one: "fst (use_api client request m) =
      (case answer of
         Inl exc \<Rightarrow> use_api_except exc
       | Inr response \<Rightarrow>
           (case handle_response response of
              Inl exc \<Rightarrow> use_api_except exc
            | Inr v \<Rightarrow> Inr v))" for m
  proof -
    obtain r w' where c: "client ?rq (upstream m) = (r, w')"
      by (cases "client ?rq (upstream m)")
    have "fst (client ?rq (upstream m)) = answer"
      using assms(2) by blast
    then have "r = answer"
      using c by simp
    then show ?thesis
      using c by (simp add: use_api_GET assms(1))
  qed
  show ?thesis
    by (simp only: one)
qed

theorem repeated_get_same_envelope_witness:
  "fst (use_api (answering item_not_found) get_item_500
          (snd (use_api (answering item_not_found) get_item_500 idle)))
     = fst (use_api (answering item_not_found) get_item_500 idle)
   \<and> fst (use_api (answering item_not_found) get_item_500 idle)
     = Inr (PDict [(''status'', PInt 404),
                   (''content'', PDict [(''detail'', PStr ''Item not found'')])])"
proof -
  have m: "method get_item_500 = ''GET''"
    by (simp add: get_item_500_def)
  have st: "\<forall>w. fst (answering item_not_found (HttpGet (url_of get_item_500)) w) = Inr item_not_found"
    by (simp add: answering_def)
  have "fst (use_api (answering item_not_found) get_item_500 idle)
     = Inr (PDict [(''status'', PInt 404),
                   (''content'', PDict [(''detail'', PStr ''Item not found'')])])"
    by (simp add: use_api_GET m answering_def handle_response_def item_not_found_def)
  then show ?thesis
    using repeated_get_same_envelope
      [where client = "answering item_not_found" and request = get_item_500
         and answer = "Inr item_not_found" and n = idle, OF m st]
    by simp
qed

subsection \<open>Synthetic and upstream envelopes\<close>

lemma use_api_except_envelope:
  assumes "use_api_except exc = Inr v"
  shows "\<exists>s c. v = PDict [(''status'', PInt s), (''content'', PStr c)]
             \<and> (s = 400 \<or> s = 500 \<or> s = 503 \<or> s = 504)"
  using assms by (auto simp: use_api_except_def split: if_splits)

lemma handle_response_envelope:
  assumes "handle_response response = Inr v"
  shows "\<exists>c. v = PDict [(''status'', PInt (status response)), (''content'', c)]
           \<and> (resp_json response = Inr c
              \<or> (\<exists>exc t. resp_json response = Inl exc \<and> isinstance exc ValueError
                    \<and> resp_text response = Inr t \<and> c = PStr t))"
  using assms by (auto simp: handle_response_def split: sum.splits if_splits)

lemma answered_envelope:
  assumes "(case r of
              Inl exc \<Rightarrow> use_api_except exc
            | Inr response \<Rightarrow>
                (case handle_response response of
                   Inl exc \<Rightarrow> use_api_except exc
                 | Inr v \<Rightarrow> Inr v)) = Inr v"
    and "envelope_status v = Some (PInt s)"
    and "s \<noteq> 400" "s \<noteq> 500" "s \<noteq> 503" "s \<noteq> 504"
  shows "\<exists>response c. r = Inr response \<and> status response = s
           \<and> v = PDict [(''status'', PInt s), (''content'', c)]
           \<and> (resp_json response = Inr c
              \<or> (\<exists>exc t. resp_json response = Inl exc \<and> isinstance exc ValueError
                    \<and> resp_text response = Inr t \<and> c = PStr t))"
proof (cases r)
  case (Inl exc)
  then have "use_api_except exc = Inr v"
    using assms(1) by simp
  from use_api_except_envelope [OF this] assms(2-) show ?thesis
    by auto
next
  case (Inr response)
  show ?thesis
  proof (cases "handle_response response")
    case (Inl exc)
    then have "use_api_except exc = Inr v"
      using assms(1) Inr by simp
    from use_api_except_envelope [OF this] assms(2-) show ?thesis
      by auto
  next
    case hr: (Inr v')
    then have "handle_response response = Inr v"
      using assms(1) Inr by simp
    from handle_response_envelope [OF this] assms(2) Inr show ?thesis
      by auto
  qed
qed

lemma use_api_except_status: "\<forall>exc u. use_api_except exc = Inr u \<longrightarrow>
            envelope_status u \<in> {Some (PInt 400), Some (PInt 500), Some (PInt 503), Some (PInt 504)}"
proof (intro allI impI)
  fix exc u assume "use_api_except exc = Inr u"
  from use_api_except_envelope [OF this] obtain s c where
    "u = PDict [(''status'', PInt s), (''content'', PStr c)]" "s = 400 \<or> s = 500 \<or> s = 503 \<or> s = 504"
    by blast
  then show "envelope_status u \<in> {Some (PInt 400), Some (PInt 500), Some (PInt 503), Some (PInt 504)}"
    by auto
qed

lemma answered_request_envelope:
  assumes "use_api client request n = (Inr v, n')"
    and "envelope_status v = Some (PInt s)"
    and s: "s \<noteq> 400" "s \<noteq> 500" "s \<noteq> 503" "s \<noteq> 504"
    and u: "use_api client request n =
        (case client rq (upstream n) of
           (r, w') \<Rightarrow>
             ((case r of
                 Inl exc \<Rightarrow> use_api_except exc
               | Inr response \<Rightarrow>
                   (case handle_response response of
                      Inl exc \<Rightarrow> use_api_except exc
                    | Inr v \<Rightarrow> Inr v)),
              \<lparr>sent = sent n @ [rq], upstream = w'\<rparr>))"
  shows "\<exists>response w' c.
            client rq (upstream n) = (Inr response, w')
          \<and> n' = \<lparr>sent = sent n @ [rq], upstream = w'\<rparr>
          \<and> status response = s
          \<and> v = PDict [(''status'', PInt s), (''content'', c)]
          \<and> (resp_json response = Inr c
             \<or> (\<exists>exc t. resp_json response = Inl exc \<and> isinstance exc ValueError
                   \<and> resp_text response = Inr t \<and> c = PStr t))"
proof -
  obtain r w' where c: "client rq (upstream n) = (r, w')"
    by (cases "client rq (upstream n)")
  have "(Inr v, n') = (case client rq (upstream n) of
           (r, w') \<Rightarrow>
             ((case r of
                 Inl exc \<Rightarrow> use_api_except exc
               | Inr response \<Rightarrow>
                   (case handle_response response of
                      Inl exc \<Rightarrow> use_api_except exc
                    | Inr v \<Rightarrow> Inr v)),
              \<lparr>sent = sent n @ [rq], upstream = w'\<rparr>))"
    using u unfolding assms(1) .
  then have r: "(case r of
                 Inl exc \<Rightarrow> use_api_except exc
               | Inr response \<Rightarrow>
                   (case handle_response response of
                      Inl exc \<Rightarrow> use_api_except exc
                    | Inr v \<Rightarrow> Inr v)) = Inr v"
      and n': "n' = \<lparr>sent = sent n @ [rq], upstream = w'\<rparr>"
    by (simp_all add: c)
  from answered_envelope [OF r assms(2) s] obtain response c' where
    "r = Inr response" "status response = s" "v = PDict [(''status'', PInt s), (''content'', c')]"
    "resp_json response = Inr c'
             \<or> (\<exists>exc t. resp_json response = Inl exc \<and> isinstance exc ValueError
                   \<and> resp_text response = Inr t \<and> c' = PStr t)"
    by blast
  with c n' show ?thesis
    by blast
qed

text \<open>
  C9. Every envelope the relay builds itself (one of an \<^verbatim>\<open>except\<close> clause) has its status
  in 400, 500, 503, 504. Consequently, when the relay returns an envelope whose status is
  outside this set, the outbound request was answered by an upstream response, the status is
  that response's status, and the content is what the response's body gave: its parsed JSON,
  or its text when parsing raised a \<^verbatim>\<open>ValueError\<close>.
\<close>

theorem status_outside_synthetic_set_is_upstream:
  assumes "use_api client request n = (Inr v, n')"
    and "envelope_status v = Some (PInt s)"
    and "s \<notin> {400, 500, 503, 504}"
  shows "(\<forall>exc u. use_api_except exc = Inr u \<longrightarrow>
            envelope_status u \<in> {Some (PInt 400), Some (PInt 500), Some (PInt 503), Some (PInt 504)})
       \<and> (\<exists>rq response w' c.
            client rq (upstream n) = (Inr response, w')
          \<and> n' = \<lparr>sent = sent n @ [rq], upstream = w'\<rparr>
          \<and> status response = s
          \<and> v = PDict [(''status'', PInt s), (''content'', c)]
          \<and> (resp_json response = Inr c
             \<or> (\<exists>exc t. resp_json response = Inl exc \<and> isinstance exc ValueError
                   \<and> resp_text response = Inr t \<and> c = PStr t)))"
proof (rule conjI)
  show "\<forall>exc u. use_api_except exc = Inr u \<longrightarrow>
            envelope_status u \<in> {Some (PInt 400), Some (PInt 500), Some (PInt 503), Some (PInt 504)}"
    by (rule use_api_except_status)
next
  have s: "s \<noteq> 400" "s \<noteq> 500" "s \<noteq> 503" "s \<noteq> 504"
    using assms(3) by simp_all
  consider (get) "method request = ''GET''"
    | (post) p where "method request = ''POST''" "payload request = Some p"
    | (nopayload) "method request = ''POST''" "payload request = None"
    | (other) "method request \<noteq> ''GET''" "method request \<noteq> ''POST''"
    by (cases "payload request") blast+
  then show "\<exists>rq response w' c.
            client rq (upstream n) = (Inr response, w')
          \<and> n' = \<lparr>sent = sent n @ [rq], upstream = w'\<rparr>
          \<and> status response = s
          \<and> v = PDict [(''status'', PInt s), (''content'', c)]
          \<and> (resp_json response = Inr c
             \<or> (\<exists>exc t. resp_json response = Inl exc \<and> isinstance exc ValueError
                   \<and> resp_text response = Inr t \<and> c = PStr t))"
  proof cases
    case get
    show ?thesis
      by (rule exI, rule answered_request_envelope [OF assms(1,2) s use_api_GET [OF get]])
  next
    case post
    show ?thesis
      by (rule exI, rule answered_request_envelope [OF assms(1,2) s use_api_POST [OF post]])
  next
    case nopayload
    have "use_api client request n = (Inr (PDict [(''status'', PInt 400),
                          (''content'', PStr ''Payload is required for POST requests'')]), n)"
      using nopayload by (simp add: use_api_def use_api_try_def)
    then have "v = PDict [(''status'', PInt 400),
                          (''content'', PStr ''Payload is required for POST requests'')]"
      unfolding assms(1) by simp
    then have "s = 400"
      using assms(2) by simp
    then show ?thesis
      using s by simp
  next
    case other
    have "use_api client request n = (Inr PNone, n)"
      using other by (simp add: use_api_def use_api_try_def)
    then have "v = PNone"
      unfolding assms(1) by simp
    then show ?thesis
      using assms(2) by simp
  qed
qed

theorem status_outside_synthetic_set_is_upstream_witness:
  "use_api (answering item_not_found) get_item_500 idle =
     (Inr (PDict [(''status'', PInt 404),
                  (''content'', PDict [(''detail'', PStr ''Item not found'')])]),
      \<lparr>sent = [HttpGet (url_of get_item_500)], upstream = 1\<rparr>)
   \<and> (404::int) \<notin> {400, 500, 503, 504}
   \<and> (\<exists>rq response w' c.
            answering item_not_found rq (upstream idle) = (Inr response, w')
          \<and> status response = 404
          \<and> (resp_json response = Inr c
             \<or> (\<exists>exc t. resp_json response = Inl exc \<and> isinstance exc ValueError
                   \<and> resp_text response = Inr t \<and> c = PStr t)))"
proof -
  let ?v = "PDict [(''status'', PInt 404),
                   (''content'', PDict [(''detail'', PStr ''Item not found'')])]"
  let ?n' = "\<lparr>sent = [HttpGet (url_of get_item_500)], upstream = 1\<rparr> :: nat network"
  have m: "method get_item_500 = ''GET''"
    by (simp add: get_item_500_def)
  have run: "use_api (answering item_not_found) get_item_500 idle = (Inr ?v, ?n')"
    by (simp add: use_api_GET m answering_def handle_response_def item_not_found_def idle_def)
  have st: "envelope_status ?v = Some (PInt 404)"
    by simp
  have out: "(404::int) \<notin> {400, 500, 503, 504}"
    by simp
  have "\<exists>rq response w' c.
            answering item_not_found rq (upstream idle) = (Inr response, w')
          \<and> ?n' = \<lparr>sent = sent idle @ [rq], upstream = w'\<rparr>
          \<and> status response = 404
          \<and> ?v = PDict [(''status'', PInt 404), (''content'', c)]
          \<and> (resp_json response = Inr c
             \<or> (\<exists>exc t. resp_json response = Inl exc \<and> isinstance exc ValueError
                   \<and> resp_text response = Inr t \<and> c = PStr t))"
    using status_outside_synthetic_set_is_upstream [OF run st out] by (rule conjunct2)
  then have "\<exists>rq response w' c.
            answering item_not_found rq (upstream idle) = (Inr response, w')
          \<and> status response = 404
          \<and> (resp_json response = Inr c
             \<or> (\<exists>exc t. resp_json response = Inl exc \<and> isinstance exc ValueError
                   \<and> resp_text response = Inr t \<and> c = PStr t))"
    by blast
  with run out show ?thesis
    by (intro conjI)
qed

subsection \<open>Failure of the outbound call\<close>

text \<open>
  C4, as the code has it. When the outbound call (the GET, or the POST with its payload)
  fails with an exception, the relay returns the envelope of the first \<^verbatim>\<open>except\<close>
  clause, in the order of the taxonomy, whose class the exception is an instance of: a
  timeout gives 504 "Request timed out"; a connection failure that is no timeout gives 503
  "Service unavailable: " and the detail; a client fault that is neither gives 500
  "Client error: " and the detail; a \<^verbatim>\<open>ValueError\<close> that is none of these (so not a
  malformed URL, which the client reports as a client fault) gives 400 "Invalid input: "
  and the detail; an I/O fault that is none of these gives 500 "I/O error: " and the
  detail.
\<close>

theorem outbound_failure_taxonomy:
  assumes "method request = ''GET'' \<and> rq = HttpGet (url_of request)
         \<or> method request = ''POST'' \<and> payload request = Some p \<and> rq = HttpPost (url_of request) p"
    and "client rq (upstream n) = (Inl exc, w')"
  shows "(isinstance exc TimeoutError \<longrightarrow>
            fst (use_api client request n) =
              Inr (PDict [(''status'', PInt 504), (''content'', PStr ''Request timed out'')]))
       \<and> (\<not> isinstance exc TimeoutError \<and> isinstance exc ClientConnectorError \<longrightarrow>
            fst (use_api client request n) =
              Inr (PDict [(''status'', PInt 503),
                          (''content'', PStr (''Service unavailable: '' @ exn_str exc))]))
       \<and> (\<not> isinstance exc TimeoutError \<and> \<not> isinstance exc ClientConnectorError
            \<and> isinstance exc ClientError \<longrightarrow>
            fst (use_api client request n) =
              Inr (PDict [(''status'', PInt 500),
                          (''content'', PStr (''Client error: '' @ exn_str exc))]))
       \<and> (\<not> isinstance exc TimeoutError \<and> \<not> isinstance exc ClientConnectorError
            \<and> \<not> isinstance exc ClientError \<and> isinstance exc ValueError \<longrightarrow>
            fst (use_api client request n) =
              Inr (PDict [(''status'', PInt 400),
                          (''content'', PStr (''Invalid input: '' @ exn_str exc))]))
       \<and> (\<not> isinstance exc TimeoutError \<and> \<not> isinstance exc ClientConnectorError
            \<and> \<not> isinstance exc ClientError \<and> \<not> isinstance exc ValueError
            \<and> isinstance exc IOError \<longrightarrow>
            fst (use_api client request n) =
              Inr (PDict [(''status'', PInt 500),
                          (''content'', PStr (''I/O error: '' @ exn_str exc))]))"
proof -
  have "fst (use_api client request n) = use_api_except exc"
    using assms(1)
  proof (elim disjE conjE)
    assume "method request = ''GET''" "rq = HttpGet (url_of request)"
    then show ?thesis
      using assms(2) by (simp add: use_api_GET)
  next
    assume "method request = ''POST''" "payload request = Some p"
      "rq = HttpPost (url_of request) p"
    then show ?thesis
      using assms(2) by (simp add: use_api_POST)
  qed
  then show ?thesis
    by (simp add: use_api_except_def)
qed

theorem outbound_failure_taxonomy_witness:
  "fst (use_api (failing timed_out) get_item_500 idle) =
     Inr (PDict [(''status'', PInt 504), (''content'', PStr ''Request timed out'')])
   \<and> fst (use_api (failing connection_refused) post_item idle) =
     Inr (PDict [(''status'', PInt 503),
                 (''content'', PStr ''Service unavailable: Cannot connect to host localhost:8001 ssl:default [Connect call failed ('127.0.0.1', 8001)]'')])
   \<and> fst (use_api (failing server_disconnected) get_item_500 idle) =
     Inr (PDict [(''status'', PInt 500), (''content'', PStr ''Client error: Server disconnected'')])
   \<and> fst (use_api (failing non_http_redirect) get_item_500 idle) =
     Inr (PDict [(''status'', PInt 400),
                 (''content'', PStr ''Invalid input: Can redirect only to http or https'')])
   \<and> fst (use_api (failing broken_pipe) post_item idle) =
     Inr (PDict [(''status'', PInt 500), (''content'', PStr ''I/O error: [Errno 32] Broken pipe'')])"
proof -
  have g: "method get_item_500 = ''GET'' \<and> HttpGet (url_of get_item_500) = HttpGet (url_of get_item_500)
         \<or> method get_item_500 = ''POST'' \<and> payload get_item_500 = Some item_payload
           \<and> HttpGet (url_of get_item_500) = HttpPost (url_of get_item_500) item_payload"
    by (simp add: get_item_500_def)
  have p: "method post_item = ''GET'' \<and> HttpPost (url_of post_item) item_payload = HttpGet (url_of post_item)
         \<or> method post_item = ''POST'' \<and> payload post_item = Some item_payload
           \<and> HttpPost (url_of post_item) item_payload = HttpPost (url_of post_item) item_payload"
    by (simp add: post_item_def)
  have f: "failing exc rq (upstream idle) = (Inl exc, Suc 0)" for exc rq
    by (simp add: failing_def idle_def)
  have "fst (use_api (failing timed_out) get_item_500 idle) =
     Inr (PDict [(''status'', PInt 504), (''content'', PStr ''Request timed out'')])"
    using outbound_failure_taxonomy
      [where request = get_item_500 and rq = "HttpGet (url_of get_item_500)" and p = item_payload
         and client = "failing timed_out" and n = idle and exc = timed_out and w' = "Suc 0", OF g f]
    by (simp add: timed_out_def isinstance_def)
  moreover have "fst (use_api (failing connection_refused) post_item idle) =
     Inr (PDict [(''status'', PInt 503),
                 (''content'', PStr ''Service unavailable: Cannot connect to host localhost:8001 ssl:default [Connect call failed ('127.0.0.1', 8001)]'')])"
    using outbound_failure_taxonomy
      [where request = post_item and rq = "HttpPost (url_of post_item) item_payload" and p = item_payload
         and client = "failing connection_refused" and n = idle and exc = connection_refused and w' = "Suc 0", OF p f]
    by (simp add: connection_refused_def isinstance_def)
  moreover have "fst (use_api (failing server_disconnected) get_item_500 idle) =
     Inr (PDict [(''status'', PInt 500), (''content'', PStr ''Client error: Server disconnected'')])"
    using outbound_failure_taxonomy
      [where request = get_item_500 and rq = "HttpGet (url_of get_item_500)" and p = item_payload
         and client = "failing server_disconnected" and n = idle and exc = server_disconnected and w' = "Suc 0", OF g f]
    by (simp add: server_disconnected_def isinstance_def)
  moreover have "fst (use_api (failing non_http_redirect) get_item_500 idle) =
     Inr (PDict [(''status'', PInt 400),
                 (''content'', PStr ''Invalid input: Can redirect only to http or https'')])"
    using outbound_failure_taxonomy
      [where request = get_item_500 and rq = "HttpGet (url_of get_item_500)" and p = item_payload
         and client = "failing non_http_redirect" and n = idle and exc = non_http_redirect and w' = "Suc 0", OF g f]
    by (simp add: non_http_redirect_def isinstance_def)
  moreover have "fst (use_api (failing broken_pipe) post_item idle) =
     Inr (PDict [(''status'', PInt 500), (''content'', PStr ''I/O error: [Errno 32] Broken pipe'')])"
    using outbound_failure_taxonomy
      [where request = post_item and rq = "HttpPost (url_of post_item) item_payload" and p = item_payload
         and client = "failing broken_pipe" and n = idle and exc = broken_pipe and w' = "Suc 0", OF p f]
    by (simp add: broken_pipe_def isinstance_def)
  ultimately show ?thesis
    by (intro conjI)
qed

text \<open>
  The rows of the taxonomy overlap, and the order of the clauses decides. The GET of the
  descriptor with port 70000 fails with aiohttp's \<^verbatim>\<open>InvalidURL\<close>, malformed input
  detected by the client layer and a \<^verbatim>\<open>ValueError\<close>; it is also a \<^verbatim>\<open>ClientError\<close>,
  whose clause comes first: the relay returns 500 "Client error: ...", not 400
  "Invalid input: ...".
\<close>

theorem invalid_url_gives_client_error:
  "isinstance invalid_url ValueError
   \<and> fst (use_api (failing invalid_url) get_port_70000 idle) =
       Inr (PDict [(''status'', PInt 500),
                   (''content'', PStr ''Client error: http://localhost:70000/'')])
   \<and> fst (use_api (failing invalid_url) get_port_70000 idle) \<noteq>
       Inr (PDict [(''status'', PInt 400),
                   (''content'', PStr ''Invalid input: http://localhost:70000/'')])"
proof -
  have m: "method get_port_70000 = ''GET''"
    by (simp add: get_port_70000_def)
  have v: "isinstance invalid_url ValueError"
    by (simp add: invalid_url_def isinstance_def)
  have e: "use_api_except invalid_url =
       Inr (PDict [(''status'', PInt 500),
                   (''content'', PStr ''Client error: http://localhost:70000/'')])"
    by (simp add: use_api_except_def invalid_url_def isinstance_def)
  have r: "fst (use_api (failing invalid_url) get_port_70000 idle) =
       Inr (PDict [(''status'', PInt 500),
                   (''content'', PStr ''Client error: http://localhost:70000/'')])"
    by (simp add: use_api_GET m failing_def e)
  have "fst (use_api (failing invalid_url) get_port_70000 idle) \<noteq>
       Inr (PDict [(''status'', PInt 400),
                   (''content'', PStr ''Invalid input: http://localhost:70000/'')])"
    unfolding r by simp
  with v r show ?thesis
    by (intro conjI)
qed

subsection \<open>Validation of the descriptor\<close>

lemma use_api_other_method:
  assumes "method request \<noteq> ''GET''" and "method request \<noteq> ''POST''"
  shows "use_api client request n = (Inr PNone, n)"
  using assms by (simp add: use_api_def use_api_try_def)

text \<open>
  A descriptor with method "get" is rejected by validation, but not with a 400: under
  FastAPI's defaults the endpoint answers 422 with a \<^verbatim>\<open>detail\<close> body, which is no
  \<^verbatim>\<open>{status, content}\<close> envelope; and \<^verbatim>\<open>use_api\<close> itself, run on this descriptor,
  sends nothing and returns \<^verbatim>\<open>None\<close>, not a 400 envelope.
\<close>

theorem lowercase_get_answered_422:
  "method get_item_lowercase = ''get''
   \<and> endpoint_reply fastapi_default
        (fst (post_useapi (answering item_not_found) get_item_lowercase idle)) =
       Reply 422 (PDict [(''detail'',
         PList [PDict [(''type'', PStr ''string_pattern_mismatch''),
                       (''loc'', PList [PStr ''body'', PStr ''method''])]])])
   \<and> reply_status (endpoint_reply fastapi_default
        (fst (post_useapi (answering item_not_found) get_item_lowercase idle))) \<noteq> 400
   \<and> envelope_status (reply_body (endpoint_reply fastapi_default
        (fst (post_useapi (answering item_not_found) get_item_lowercase idle)))) = None
   \<and> use_api (answering item_not_found) get_item_lowercase idle = (Inr PNone, idle)"
proof -
  have m: "method get_item_lowercase = ''get''"
    by (simp add: get_item_lowercase_def)
  have p: "post_useapi (answering item_not_found) get_item_lowercase idle
      = (Inl (string_pattern_mismatch ''method''), idle)"
    by (simp add: post_useapi_def APIRequest_validate_def method_pattern_def m)
  have r: "endpoint_reply fastapi_default
        (fst (post_useapi (answering item_not_found) get_item_lowercase idle)) =
       Reply 422 (PDict [(''detail'',
         PList [PDict [(''type'', PStr ''string_pattern_mismatch''),
                       (''loc'', PList [PStr ''body'', PStr ''method''])]])])"
    by (simp add: p endpoint_reply_def fastapi_default_def)
  have s: "reply_status (endpoint_reply fastapi_default
        (fst (post_useapi (answering item_not_found) get_item_lowercase idle))) \<noteq> 400"
    unfolding r by simp
  have e: "envelope_status (reply_body (endpoint_reply fastapi_default
        (fst (post_useapi (answering item_not_found) get_item_lowercase idle)))) = None"
    unfolding r by simp
  have u: "use_api (answering item_not_found) get_item_lowercase idle = (Inr PNone, idle)"
    by (rule use_api_other_method) (simp_all add: m)
  from m r s e u show ?thesis
    by (intro conjI)
qed

text \<open>
  C7, as the code has it. The method is matched by exact, case-sensitive string equality:
  a descriptor passes validation if and only if its method is exactly "GET" or exactly
  "POST". Any other method (for instance "get") is rejected at the endpoint by the
  validation of the model, before the handler runs and with no outbound request. The answer
  is the framework's answer to a validation error (422 under FastAPI's defaults), not a 400
  and not an envelope; \<^verbatim>\<open>use_api\<close> has no branch that rejects a method, and returns
  \<^verbatim>\<open>None\<close> when run on one.
\<close>

theorem method_accepted_iff:
  "(APIRequest_validate request = Inr request)
      = (method request = ''GET'' \<or> method request = ''POST'')
   \<and> (APIRequest_validate request = Inl (string_pattern_mismatch ''method''))
      = (method request \<noteq> ''GET'' \<and> method request \<noteq> ''POST'')
   \<and> (method request \<noteq> ''GET'' \<and> method request \<noteq> ''POST'' \<longrightarrow>
        post_useapi client request n = (Inl (string_pattern_mismatch ''method''), n)
      \<and> endpoint_reply fw (fst (post_useapi client request n))
          = on_invalid fw (string_pattern_mismatch ''method'')
      \<and> reply_status (endpoint_reply fastapi_default (fst (post_useapi client request n))) = 422
      \<and> use_api client request n = (Inr PNone, n))"
proof -
  have acc: "(APIRequest_validate request = Inr request)
      = (method request = ''GET'' \<or> method request = ''POST'')"
    by (simp add: APIRequest_validate_def method_pattern_def)
  have rej: "(APIRequest_validate request = Inl (string_pattern_mismatch ''method''))
      = (method request \<noteq> ''GET'' \<and> method request \<noteq> ''POST'')"
    by (simp add: APIRequest_validate_def method_pattern_def)
  have out: "post_useapi client request n = (Inl (string_pattern_mismatch ''method''), n)
      \<and> endpoint_reply fw (fst (post_useapi client request n))
          = on_invalid fw (string_pattern_mismatch ''method'')
      \<and> reply_status (endpoint_reply fastapi_default (fst (post_useapi client request n))) = 422
      \<and> use_api client request n = (Inr PNone, n)"
    if o: "method request \<noteq> ''GET'' \<and> method request \<noteq> ''POST''"
  proof -
    have p: "post_useapi client request n = (Inl (string_pattern_mismatch ''method''), n)"
      using o by (simp add: post_useapi_def APIRequest_validate_def method_pattern_def)
    have "endpoint_reply fw (fst (post_useapi client request n))
          = on_invalid fw (string_pattern_mismatch ''method'')"
      by (simp add: p endpoint_reply_def)
    moreover have "reply_status (endpoint_reply fastapi_default (fst (post_useapi client request n))) = 422"
      by (simp add: p endpoint_reply_def fastapi_default_def)
    moreover have "use_api client request n = (Inr PNone, n)"
      using o by (simp add: use_api_other_method)
    ultimately show ?thesis
      using p by (intro conjI)
  qed
  show ?thesis
    using acc rej out by blast
qed

theorem method_accepted_iff_witness:
  "method get_item_lowercase = ''get''
   \<and> APIRequest_validate get_item_lowercase = Inl (string_pattern_mismatch ''method'')
   \<and> post_useapi (answering item_not_found) get_item_lowercase idle
       = (Inl (string_pattern_mismatch ''method''), idle)
   \<and> reply_status (endpoint_reply fastapi_default
        (fst (post_useapi (answering item_not_found) get_item_lowercase idle))) = 422
   \<and> APIRequest_validate get_item_500 = Inr get_item_500"
proof -
  have m: "method get_item_lowercase = ''get''"
    by (simp add: get_item_lowercase_def)
  have o: "method get_item_lowercase \<noteq> ''GET'' \<and> method get_item_lowercase \<noteq> ''POST''"
    by (simp add: m)
  have g: "method get_item_500 = ''GET'' \<or> method get_item_500 = ''POST''"
    by (simp add: get_item_500_def)
  note low = method_accepted_iff
    [where request = get_item_lowercase and client = "answering item_not_found" and n = idle
       and fw = fastapi_default]
  note up = method_accepted_iff
    [where request = get_item_500 and client = "answering item_not_found" and n = idle
       and fw = fastapi_default]
  have "APIRequest_validate get_item_lowercase = Inl (string_pattern_mismatch ''method'')"
    using low o by blast
  moreover have "post_useapi (answering item_not_found) get_item_lowercase idle
       = (Inl (string_pattern_mismatch ''method''), idle)"
    using low o by blast
  moreover have "reply_status (endpoint_reply fastapi_default
        (fst (post_useapi (answering item_not_found) get_item_lowercase idle))) = 422"
    using low o by blast
  moreover have "APIRequest_validate get_item_500 = Inr get_item_500"
    using up g by blast
  ultimately show ?thesis
    using m by (intro conjI)
qed

text \<open>
  A descriptor with port 70000, outside 1--65535, passes validation: the handler runs on it.
  The rejection comes from the HTTP client, inside the handler, which turns it into the 500
  "Client error: ..." envelope.
\<close>

theorem port_70000_accepted:
  "\<not> (1 \<le> port get_port_70000 \<and> port get_port_70000 \<le> 65535)
   \<and> APIRequest_validate get_port_70000 = Inr get_port_70000
   \<and> fst (post_useapi (failing invalid_url) get_port_70000 idle) =
       Inr (Inr (PDict [(''status'', PInt 500),
                        (''content'', PStr ''Client error: http://localhost:70000/'')]))"
proof -
  have m: "method get_port_70000 = ''GET''"
    by (simp add: get_port_70000_def)
  have e: "use_api_except invalid_url =
       Inr (PDict [(''status'', PInt 500),
                   (''content'', PStr ''Client error: http://localhost:70000/'')])"
    by (simp add: use_api_except_def invalid_url_def isinstance_def)
  have "fst (post_useapi (failing invalid_url) get_port_70000 idle) =
       Inr (Inr (PDict [(''status'', PInt 500),
                        (''content'', PStr ''Client error: http://localhost:70000/'')]))"
    by (simp add: post_useapi_accepted m use_api_GET failing_def e)
  moreover have "APIRequest_validate get_port_70000 = Inr get_port_70000"
    by (simp add: APIRequest_validate_def method_pattern_def m)
  moreover have "\<not> (1 \<le> port get_port_70000 \<and> port get_port_70000 \<le> 65535)"
    by (simp add: get_port_70000_def)
  ultimately show ?thesis
    by (intro conjI)
qed

text \<open>
  C5, as the code has it. The port of a descriptor is accepted whatever integer it is:
  validation depends on the method alone, and a descriptor with an accepted method reaches
  the handler whatever its port; no check of the range 1--65535 is made before the handler
  runs.
\<close>

theorem port_not_range_checked:
  "(APIRequest_validate (request\<lparr>port := p\<rparr>) = Inr (request\<lparr>port := p\<rparr>))
      = (method request = ''GET'' \<or> method request = ''POST'')
   \<and> (method request = ''GET'' \<or> method request = ''POST'' \<longrightarrow>
        post_useapi client (request\<lparr>port := p\<rparr>) n =
          (Inr (fst (use_api client (request\<lparr>port := p\<rparr>) n)),
           snd (use_api client (request\<lparr>port := p\<rparr>) n)))"
proof (rule conjI)
  show "(APIRequest_validate (request\<lparr>port := p\<rparr>) = Inr (request\<lparr>port := p\<rparr>))
      = (method request = ''GET'' \<or> method request = ''POST'')"
    by (simp add: APIRequest_validate_def method_pattern_def)
next
  show "method request = ''GET'' \<or> method request = ''POST'' \<longrightarrow>
        post_useapi client (request\<lparr>port := p\<rparr>) n =
          (Inr (fst (use_api client (request\<lparr>port := p\<rparr>) n)),
           snd (use_api client (request\<lparr>port := p\<rparr>) n))"
  proof
    assume "method request = ''GET'' \<or> method request = ''POST''"
    then have "method (request\<lparr>port := p\<rparr>) = ''GET'' \<or> method (request\<lparr>port := p\<rparr>) = ''POST''"
      by simp
    then show "post_useapi client (request\<lparr>port := p\<rparr>) n =
          (Inr (fst (use_api client (request\<lparr>port := p\<rparr>) n)),
           snd (use_api client (request\<lparr>port := p\<rparr>) n))"
      by (rule post_useapi_accepted)
  qed
qed

theorem port_not_range_checked_witness:
  "APIRequest_validate (get_item_500\<lparr>port := 70000\<rparr>) = Inr (get_item_500\<lparr>port := 70000\<rparr>)
   \<and> APIRequest_validate (get_item_500\<lparr>port := 0\<rparr>) = Inr (get_item_500\<lparr>port := 0\<rparr>)
   \<and> APIRequest_validate (get_item_500\<lparr>port := - 1\<rparr>) = Inr (get_item_500\<lparr>port := - 1\<rparr>)
   \<and> post_useapi (failing invalid_url) (get_item_500\<lparr>port := 70000\<rparr>) idle =
        (Inr (fst (use_api (failing invalid_url) (get_item_500\<lparr>port := 70000\<rparr>) idle)),
         snd (use_api (failing invalid_url) (get_item_500\<lparr>port := 70000\<rparr>) idle))"
proof -
  have g: "method get_item_500 = ''GET'' \<or> method get_item_500 = ''POST''"
    by (simp add: get_item_500_def)
  note at = port_not_range_checked [where request = get_item_500 and n = idle]
  have "APIRequest_validate (get_item_500\<lparr>port := 70000\<rparr>) = Inr (get_item_500\<lparr>port := 70000\<rparr>)"
    using at [where p = 70000 and client = "failing invalid_url"] g by blast
  moreover have "APIRequest_validate (get_item_500\<lparr>port := 0\<rparr>) = Inr (get_item_500\<lparr>port := 0\<rparr>)"
    using at [where p = 0 and client = "failing invalid_url"] g by blast
  moreover have "APIRequest_validate (get_item_500\<lparr>port := - 1\<rparr>) = Inr (get_item_500\<lparr>port := - 1\<rparr>)"
    using at [where p = "- 1" and client = "failing invalid_url"] g by blast
  moreover have "post_useapi (failing invalid_url) (get_item_500\<lparr>port := 70000\<rparr>) idle =
        (Inr (fst (use_api (failing invalid_url) (get_item_500\<lparr>port := 70000\<rparr>) idle)),
         snd (use_api (failing invalid_url) (get_item_500\<lparr>port := 70000\<rparr>) idle))"
    using at [where p = 70000 and client = "failing invalid_url"] g by blast
  ultimately show ?thesis
    by (intro conjI)
qed

subsection \<open>Where the relay departs from its documentation\<close>

text \<open>
  C1. The claim is that every upstream response gives an envelope with the upstream's status
  and, when the body is not JSON, its raw text. \<^verbatim>\<open>handle_response\<close> falls back to the
  text only on a \<^verbatim>\<open>ValueError\<close>. On the 200 \<^verbatim>\<open>text/plain\<close> response the exception of
  \<^verbatim>\<open>response.json()\<close> is a \<^verbatim>\<open>ClientError\<close>: it leaves \<^verbatim>\<open>handle_response\<close> and
  \<^verbatim>\<open>use_api\<close> returns status 500 with a "Client error: " content, neither the status 200
  nor the text "hello".
\<close>

theorem non_json_content_type_gives_500:
  "handle_response plain_text_hello = Inl content_type_error
   \<and> fst (use_api (answering plain_text_hello) get_item_500 idle) =
       Inr (PDict [(''status'', PInt 500),
                   (''content'', PStr ''Client error: Attempt to decode JSON with unexpected mimetype: text/plain'')])"
proof -
  have m: "method get_item_500 = ''GET''"
    by (simp add: get_item_500_def)
  have h: "handle_response plain_text_hello = Inl content_type_error"
    by (simp add: handle_response_def plain_text_hello_def content_type_error_def isinstance_def)
  have "use_api_except content_type_error =
       Inr (PDict [(''status'', PInt 500),
                   (''content'', PStr ''Client error: Attempt to decode JSON with unexpected mimetype: text/plain'')])"
    by (simp add: use_api_except_def content_type_error_def isinstance_def)
  then have "fst (use_api (answering plain_text_hello) get_item_500 idle) =
       Inr (PDict [(''status'', PInt 500),
                   (''content'', PStr ''Client error: Attempt to decode JSON with unexpected mimetype: text/plain'')])"
    by (simp add: use_api_GET m answering_def h)
  with h show ?thesis
    by (intro conjI)
qed

text \<open>
  C3. The claim is that the relay never lets a fault reach its caller. \<^verbatim>\<open>use_api\<close> has
  five \<^verbatim>\<open>except\<close> clauses and no catch-all: for a validated GET descriptor and the
  deeply nested response, the \<^verbatim>\<open>RecursionError\<close> of the decoder matches none of them
  and is raised out of \<^verbatim>\<open>use_api\<close> to the endpoint.
\<close>

theorem unhandled_exception_propagates:
  "APIRequest_validate get_item_500 = Inr get_item_500
   \<and> fst (use_api (answering deeply_nested) get_item_500 idle) = Inl recursion_error
   \<and> fst (post_useapi (answering deeply_nested) get_item_500 idle) = Inr (Inl recursion_error)"
proof -
  have m: "method get_item_500 = ''GET''"
    by (simp add: get_item_500_def)
  have h: "handle_response deeply_nested = Inl recursion_error"
    by (simp add: handle_response_def deeply_nested_def recursion_error_def isinstance_def)
  have e: "use_api_except recursion_error = Inl recursion_error"
    by (simp add: use_api_except_def recursion_error_def isinstance_def)
  have u: "fst (use_api (answering deeply_nested) get_item_500 idle) = Inl recursion_error"
    by (simp add: use_api_GET m answering_def h e)
  have "fst (post_useapi (answering deeply_nested) get_item_500 idle) = Inr (Inl recursion_error)"
    using u by (simp add: post_useapi_accepted m)
  moreover have "APIRequest_validate get_item_500 = Inr get_item_500"
    by (simp add: APIRequest_validate_def method_pattern_def m)
  ultimately show ?thesis
    using u by (intro conjI)
qed

end
